theory Spec2Isabelle
  imports Main "HOL-Library.Sublist" "HOL-Library.Char_ord" "HOL-Library.List_Lexorder"
begin

section \<open>Python values used by the monitor\<close>

text \<open>
  A Python \<open>str\<close> is modelled as its UTF-8 encoding, a \<open>string\<close>. The literals of the
  source that are not ASCII are written byte by byte. Substring tests and splits at an
  ASCII separator give the same answer on the encoding as on the code points; a slice
  \<open>s[:n]\<close> counts code points, which \<open>py_slice_to\<close> does on the encoding.
\<close>

definition digit_char :: "nat \<Rightarrow> char" where
  "digit_char d = ''0123456789'' ! d"

function digits_of :: "nat \<Rightarrow> string" where
  "digits_of n = (if n < 10 then [digit_char n] else digits_of (n div 10) @ [digit_char (n mod 10)])"
  by pat_completeness auto
termination
  by (relation "measure id") auto

declare digits_of.simps [simp del]

definition str_int :: "int \<Rightarrow> string" where
  \<comment> \<open>\<open>str(i)\<close> and \<open>f'{i}'\<close> for an int\<close>
  "str_int i = (if i < 0 then CHR ''-'' # digits_of (nat (- i)) else digits_of (nat i))"

definition startswith :: "string \<Rightarrow> string \<Rightarrow> bool" where
  \<comment> \<open>\<open>s.startswith(p)\<close>\<close>
  "startswith s p = (take (length p) s = p)"

definition split_first :: "char \<Rightarrow> string \<Rightarrow> string list" where
  \<comment> \<open>\<open>s.split(c, 1)\<close>: one element when \<open>c\<close> does not occur, else the parts around its first occurrence\<close>
  "split_first c s =
     (if c \<in> set s then [takeWhile (\<lambda>x. x \<noteq> c) s, tl (dropWhile (\<lambda>x. x \<noteq> c) s)] else [s])"

definition rsplit_last :: "char \<Rightarrow> string \<Rightarrow> string list" where
  \<comment> \<open>\<open>s.rsplit(c, 1)\<close>: the parts around the last occurrence of \<open>c\<close>\<close>
  "rsplit_last c s =
     (if c \<in> set s
      then [rev (tl (dropWhile (\<lambda>x. x \<noteq> c) (rev s))), rev (takeWhile (\<lambda>x. x \<noteq> c) (rev s))]
      else [s])"

definition split_head :: "char \<Rightarrow> string \<Rightarrow> string" where
  \<comment> \<open>\<open>s.split(c)[0]\<close>\<close>
  "split_head c s = takeWhile (\<lambda>x. x \<noteq> c) s"

definition is_continuation :: "char \<Rightarrow> bool" where
  \<comment> \<open>a UTF-8 byte \<open>10xxxxxx\<close>, which continues a code point\<close>
  "is_continuation c = ((of_char c :: nat) div 64 = 2)"

fun py_slice_to :: "nat \<Rightarrow> string \<Rightarrow> string" where
  \<comment> \<open>\<open>s[:n]\<close>, the first \<open>n\<close> code points\<close>
  "py_slice_to n [] = []"
| "py_slice_to n (c # cs) =
     (if is_continuation c then c # py_slice_to n cs
      else (case n of 0 \<Rightarrow> [] | Suc k \<Rightarrow> c # py_slice_to k cs))"

text \<open>
  Exceptions, by the handler class that catches them first. \<open>Other_Exception\<close> is any other
  subclass of \<open>Exception\<close> (\<open>ValueError\<close>, \<open>KeyError\<close>, \<open>AttributeError\<close>, \<open>OSError\<close>, ...).
  Each carries \<open>str(e)\<close>.
\<close>

datatype pyexn =
    Requests_Timeout string
  | Requests_SSLError string
  | Requests_ConnectionError string
  | Socket_timeout string
  | Ssl_SSLError string
  | Other_Exception string

fun str_exn :: "pyexn \<Rightarrow> string" where
  "str_exn (Requests_Timeout s) = s"
| "str_exn (Requests_SSLError s) = s"
| "str_exn (Requests_ConnectionError s) = s"
| "str_exn (Socket_timeout s) = s"
| "str_exn (Ssl_SSLError s) = s"
| "str_exn (Other_Exception s) = s"

section \<open>Data model\<close>

text \<open>
  The stored \<open>headers\<close> text after \<open>json.loads\<close>: an object, another JSON value (with the
  name of its Python type), or text that does not parse.
\<close>

datatype headers_json =
    Headers_dict "(string \<times> string) list"
  | Headers_other string
  | Headers_invalid

text \<open>
  A row of the \<open>monitors\<close> table as \<open>dict(row)\<close>, with the key \<open>type\<close> that \<open>check_monitor\<close>
  adds. Columns hold values of their declared type. \<open>types\<close> is the stored JSON text after
  \<open>json.loads\<close>: a list of strings, or \<open>None\<close> when the text does not parse.
\<close>

record monitor =
  monitor_id :: int
  name :: string
  types :: "string list option"
  type :: string
  target :: string
  interval :: int
  timeout :: int
  http_method :: string
  headers :: headers_json
  body :: string
  expected_status :: int
  keyword :: string
  port :: int
  notify_channels :: string
  enabled :: int

record check_result =
  status :: int
  response_time :: int
  status_code :: int
  message :: string

record heartbeat =
  hb_monitor_id :: int
  hb_status :: int
  hb_message :: string
  hb_created_at :: string

text \<open>The calls a probe makes to the network, with the arguments the source passes.\<close>

datatype io_call =
    Requests_post string string "(string \<times> string) list" int
  | Requests_head string "(string \<times> string) list" int
  | Requests_get string "(string \<times> string) list option" int
  | Connect_ex string int int
  | Tls_getpeercert "string option" int
  | Pymysql_connect string int string string "string option" int
  | Redis_ping string int int

text \<open>
  The world outside the program. The network oracles give the outcome of the call made
  as the \<open>k\<close>-th call of the run: a value, or the exception raised. \<open>pymysql\<close> and \<open>redis\<close>
  are \<open>None\<close> when the module cannot be imported, else the outcome of connecting and
  pinging (\<open>None\<close> for success). \<open>elapsed_ms k\<close> is the value the source measures around
  the \<open>k\<close>-th call, \<open>int((datetime.now() - start_time).total_seconds() * 1000)\<close>; \<open>now k\<close> is
  what \<open>datetime.now()\<close> reads after \<open>k\<close> calls, in microseconds on the naive time line
  that \<open>strptime\<close> parses to. The remaining fields are library functions: \<open>strptime\<close> takes
  the text and the format, \<open>py_int\<close> is \<open>int\<close> on a string, \<open>py_upper\<close> is \<open>str.upper\<close>,
  \<open>urlparse_hostname u\<close> is \<open>urlparse(u).hostname\<close>.

  The model is sequential, and the tables of the database are lists in memory whose
  operations do not fail. Integers are unbounded, as in Python; the range of \<open>datetime\<close>
  is not modelled.
\<close>

record world =
  requests :: "nat \<Rightarrow> io_call \<Rightarrow> pyexn + int \<times> string"
  connect_ex :: "nat \<Rightarrow> io_call \<Rightarrow> pyexn + int"
  getpeercert :: "nat \<Rightarrow> io_call \<Rightarrow> pyexn + string option"
  pymysql :: "(nat \<Rightarrow> io_call \<Rightarrow> pyexn option) option"
  redis :: "(nat \<Rightarrow> io_call \<Rightarrow> pyexn option) option"
  elapsed_ms :: "nat \<Rightarrow> int"
  now :: "nat \<Rightarrow> int"
  strptime :: "string \<Rightarrow> string \<Rightarrow> pyexn + int"
  py_int :: "string \<Rightarrow> pyexn + int"
  py_upper :: "string \<Rightarrow> string"
  urlparse_hostname :: "string \<Rightarrow> pyexn + string option"

section \<open>Message literals\<close>

text \<open>
  The message texts of \<open>monitor.py\<close> and \<open>app.py\<close>, UTF-8 encoded, each with its code
  points (\<open>SP\<close> is a space) and its meaning in English.
\<close>

definition msg_status_code :: string where
  \<comment> \<open>U+72B6 U+6001 U+7801 SP: "status code"\<close>
  "msg_status_code =
     [CHR 0xE7, CHR 0x8A, CHR 0xB6, CHR 0xE6, CHR 0x80, CHR 0x81, CHR 0xE7, CHR 0xA0,
     CHR 0x81] @ '' ''"

definition msg_request_timeout :: string where
  \<comment> \<open>U+8BF7 U+6C42 U+8D85 U+65F6: "request timed out"\<close>
  "msg_request_timeout =
     [CHR 0xE8, CHR 0xAF, CHR 0xB7, CHR 0xE6, CHR 0xB1, CHR 0x82, CHR 0xE8, CHR 0xB6, CHR 0x85,
     CHR 0xE6, CHR 0x97, CHR 0xB6]"

definition msg_ssl_cert_error :: string where
  \<comment> \<open>SSL U+8BC1 U+4E66 U+9519 U+8BEF : SP: "SSL certificate error:"\<close>
  "msg_ssl_cert_error =
     ''SSL'' @ [CHR 0xE8, CHR 0xAF, CHR 0x81, CHR 0xE4, CHR 0xB9, CHR 0xA6, CHR 0xE9, CHR 0x94,
     CHR 0x99, CHR 0xE8, CHR 0xAF, CHR 0xAF] @ '': ''"

definition msg_connection_failed :: string where
  \<comment> \<open>U+8FDE U+63A5 U+5931 U+8D25: "connection failed"\<close>
  "msg_connection_failed =
     [CHR 0xE8, CHR 0xBF, CHR 0x9E, CHR 0xE6, CHR 0x8E, CHR 0xA5, CHR 0xE5, CHR 0xA4, CHR 0xB1,
     CHR 0xE8, CHR 0xB4, CHR 0xA5]"

definition msg_keyword_found :: string where
  \<comment> \<open>U+5305 U+542B U+5173 U+952E U+8BCD : SP: "contains keyword:"\<close>
  "msg_keyword_found =
     [CHR 0xE5, CHR 0x8C, CHR 0x85, CHR 0xE5, CHR 0x90, CHR 0xAB, CHR 0xE5, CHR 0x85, CHR 0xB3,
     CHR 0xE9, CHR 0x94, CHR 0xAE, CHR 0xE8, CHR 0xAF, CHR 0x8D] @ '': ''"

definition msg_keyword_not_found :: string where
  \<comment> \<open>U+672A U+627E U+5230 U+5173 U+952E U+8BCD : SP: "keyword not found:"\<close>
  "msg_keyword_not_found =
     [CHR 0xE6, CHR 0x9C, CHR 0xAA, CHR 0xE6, CHR 0x89, CHR 0xBE, CHR 0xE5, CHR 0x88, CHR 0xB0,
     CHR 0xE5, CHR 0x85, CHR 0xB3, CHR 0xE9, CHR 0x94, CHR 0xAE, CHR 0xE8, CHR 0xAF,
     CHR 0x8D] @ '': ''"

definition msg_port :: string where
  \<comment> \<open>U+7AEF U+53E3 SP: "port"\<close>
  "msg_port = [CHR 0xE7, CHR 0xAB, CHR 0xAF, CHR 0xE5, CHR 0x8F, CHR 0xA3] @ '' ''"

definition msg_open :: string where
  \<comment> \<open>SP U+5F00 U+653E: "open"\<close>
  "msg_open = '' '' @ [CHR 0xE5, CHR 0xBC, CHR 0x80, CHR 0xE6, CHR 0x94, CHR 0xBE]"

definition msg_not_open :: string where
  \<comment> \<open>SP U+672A U+5F00 U+653E: "not open"\<close>
  "msg_not_open =
     '' '' @ [CHR 0xE6, CHR 0x9C, CHR 0xAA, CHR 0xE5, CHR 0xBC, CHR 0x80, CHR 0xE6, CHR 0x94,
     CHR 0xBE]"

definition msg_connect_timeout :: string where
  \<comment> \<open>U+8FDE U+63A5 U+8D85 U+65F6: "connection timed out"\<close>
  "msg_connect_timeout =
     [CHR 0xE8, CHR 0xBF, CHR 0x9E, CHR 0xE6, CHR 0x8E, CHR 0xA5, CHR 0xE8, CHR 0xB6, CHR 0x85,
     CHR 0xE6, CHR 0x97, CHR 0xB6]"

definition msg_cert_expired :: string where
  \<comment> \<open>U+8BC1 U+4E66 U+5DF2 U+8FC7 U+671F: "certificate has expired"\<close>
  "msg_cert_expired =
     [CHR 0xE8, CHR 0xAF, CHR 0x81, CHR 0xE4, CHR 0xB9, CHR 0xA6, CHR 0xE5, CHR 0xB7, CHR 0xB2,
     CHR 0xE8, CHR 0xBF, CHR 0x87, CHR 0xE6, CHR 0x9C, CHR 0x9F]"

definition msg_cert_expires_in :: string where
  \<comment> \<open>U+8BC1 U+4E66 U+5C06 U+5728 SP: "certificate will, in"\<close>
  "msg_cert_expires_in =
     [CHR 0xE8, CHR 0xAF, CHR 0x81, CHR 0xE4, CHR 0xB9, CHR 0xA6, CHR 0xE5, CHR 0xB0, CHR 0x86,
     CHR 0xE5, CHR 0x9C, CHR 0xA8] @ '' ''"

definition msg_days_until_expired :: string where
  \<comment> \<open>SP U+5929 U+540E U+8FC7 U+671F: "days, expire"\<close>
  "msg_days_until_expired =
     '' '' @ [CHR 0xE5, CHR 0xA4, CHR 0xA9, CHR 0xE5, CHR 0x90, CHR 0x8E, CHR 0xE8, CHR 0xBF,
     CHR 0x87, CHR 0xE6, CHR 0x9C, CHR 0x9F]"

definition msg_cert_remaining :: string where
  \<comment> \<open>U+8BC1 U+4E66 U+5269 U+4F59 SP: "certificate has left"\<close>
  "msg_cert_remaining =
     [CHR 0xE8, CHR 0xAF, CHR 0x81, CHR 0xE4, CHR 0xB9, CHR 0xA6, CHR 0xE5, CHR 0x89, CHR 0xA9,
     CHR 0xE4, CHR 0xBD, CHR 0x99] @ '' ''"

definition msg_days_expiring :: string where
  \<comment> \<open>SP U+5929 U+FF08 U+5373 U+5C06 U+8FC7 U+671F U+FF09: "days (about to expire)"\<close>
  "msg_days_expiring =
     '' '' @ [CHR 0xE5, CHR 0xA4, CHR 0xA9, CHR 0xEF, CHR 0xBC, CHR 0x88, CHR 0xE5, CHR 0x8D,
     CHR 0xB3, CHR 0xE5, CHR 0xB0, CHR 0x86, CHR 0xE8, CHR 0xBF, CHR 0x87, CHR 0xE6, CHR 0x9C,
     CHR 0x9F, CHR 0xEF, CHR 0xBC, CHR 0x89]"

definition msg_cert_valid :: string where
  \<comment> \<open>U+8BC1 U+4E66 U+6709 U+6548 U+FF0C U+5269 U+4F59 SP: "certificate valid, left"\<close>
  "msg_cert_valid =
     [CHR 0xE8, CHR 0xAF, CHR 0x81, CHR 0xE4, CHR 0xB9, CHR 0xA6, CHR 0xE6, CHR 0x9C, CHR 0x89,
     CHR 0xE6, CHR 0x95, CHR 0x88, CHR 0xEF, CHR 0xBC, CHR 0x8C, CHR 0xE5, CHR 0x89, CHR 0xA9,
     CHR 0xE4, CHR 0xBD, CHR 0x99] @ '' ''"

definition msg_days :: string where
  \<comment> \<open>SP U+5929: "days"\<close>
  "msg_days = '' '' @ [CHR 0xE5, CHR 0xA4, CHR 0xA9]"

definition msg_ssl_error :: string where
  \<comment> \<open>SSL U+9519 U+8BEF : SP: "SSL error:"\<close>
  "msg_ssl_error =
     ''SSL'' @ [CHR 0xE9, CHR 0x94, CHR 0x99, CHR 0xE8, CHR 0xAF, CHR 0xAF] @ '': ''"

definition msg_never_received :: string where
  \<comment> \<open>U+4ECE U+672A U+6536 U+5230 U+5FC3 U+8DF3: "never received a heartbeat"\<close>
  "msg_never_received =
     [CHR 0xE4, CHR 0xBB, CHR 0x8E, CHR 0xE6, CHR 0x9C, CHR 0xAA, CHR 0xE6, CHR 0x94, CHR 0xB6,
     CHR 0xE5, CHR 0x88, CHR 0xB0, CHR 0xE5, CHR 0xBF, CHR 0x83, CHR 0xE8, CHR 0xB7, CHR 0xB3]"

definition msg_heartbeat_stale :: string where
  \<comment> \<open>U+5FC3 U+8DF3 U+8D85 U+65F6 U+FF0C U+4E0A U+6B21 : SP: "heartbeat timed out, last:"\<close>
  "msg_heartbeat_stale =
     [CHR 0xE5, CHR 0xBF, CHR 0x83, CHR 0xE8, CHR 0xB7, CHR 0xB3, CHR 0xE8, CHR 0xB6, CHR 0x85,
     CHR 0xE6, CHR 0x97, CHR 0xB6, CHR 0xEF, CHR 0xBC, CHR 0x8C, CHR 0xE4, CHR 0xB8, CHR 0x8A,
     CHR 0xE6, CHR 0xAC, CHR 0xA1] @ '': ''"

definition msg_no_pymysql :: string where
  \<comment> \<open>U+7F3A U+5C11 SP pymysql SP U+6A21 U+5757: "pymysql module missing"\<close>
  "msg_no_pymysql =
     [CHR 0xE7, CHR 0xBC, CHR 0xBA, CHR 0xE5, CHR 0xB0, CHR 0x91] @ '' pymysql '' @ [CHR 0xE6,
     CHR 0xA8, CHR 0xA1, CHR 0xE5, CHR 0x9D, CHR 0x97]"

definition msg_mysql_ok :: string where
  \<comment> \<open>MySQL SP U+8FDE U+63A5 U+6B63 U+5E38: "MySQL connection normal"\<close>
  "msg_mysql_ok =
     ''MySQL '' @ [CHR 0xE8, CHR 0xBF, CHR 0x9E, CHR 0xE6, CHR 0x8E, CHR 0xA5, CHR 0xE6,
     CHR 0xAD, CHR 0xA3, CHR 0xE5, CHR 0xB8, CHR 0xB8]"

definition msg_mysql_failed :: string where
  \<comment> \<open>MySQL SP U+8FDE U+63A5 U+5931 U+8D25 : SP: "MySQL connection failed:"\<close>
  "msg_mysql_failed =
     ''MySQL '' @ [CHR 0xE8, CHR 0xBF, CHR 0x9E, CHR 0xE6, CHR 0x8E, CHR 0xA5, CHR 0xE5,
     CHR 0xA4, CHR 0xB1, CHR 0xE8, CHR 0xB4, CHR 0xA5] @ '': ''"

definition msg_no_redis :: string where
  \<comment> \<open>U+7F3A U+5C11 SP redis SP U+6A21 U+5757: "redis module missing"\<close>
  "msg_no_redis =
     [CHR 0xE7, CHR 0xBC, CHR 0xBA, CHR 0xE5, CHR 0xB0, CHR 0x91] @ '' redis '' @ [CHR 0xE6,
     CHR 0xA8, CHR 0xA1, CHR 0xE5, CHR 0x9D, CHR 0x97]"

definition msg_redis_ok :: string where
  \<comment> \<open>Redis SP U+8FDE U+63A5 U+6B63 U+5E38: "Redis connection normal"\<close>
  "msg_redis_ok =
     ''Redis '' @ [CHR 0xE8, CHR 0xBF, CHR 0x9E, CHR 0xE6, CHR 0x8E, CHR 0xA5, CHR 0xE6,
     CHR 0xAD, CHR 0xA3, CHR 0xE5, CHR 0xB8, CHR 0xB8]"

definition msg_redis_failed :: string where
  \<comment> \<open>Redis SP U+8FDE U+63A5 U+5931 U+8D25 : SP: "Redis connection failed:"\<close>
  "msg_redis_failed =
     ''Redis '' @ [CHR 0xE8, CHR 0xBF, CHR 0x9E, CHR 0xE6, CHR 0x8E, CHR 0xA5, CHR 0xE5,
     CHR 0xA4, CHR 0xB1, CHR 0xE8, CHR 0xB4, CHR 0xA5] @ '': ''"

definition name_keyword :: string where
  \<comment> \<open>U+5173 U+952E U+8BCD: "keyword"\<close>
  "name_keyword =
     [CHR 0xE5, CHR 0x85, CHR 0xB3, CHR 0xE9, CHR 0x94, CHR 0xAE, CHR 0xE8, CHR 0xAF, CHR 0x8D]"

definition name_ssl :: string where
  \<comment> \<open>SSL U+8BC1 U+4E66: "SSL certificate"\<close>
  "name_ssl = ''SSL'' @ [CHR 0xE8, CHR 0xAF, CHR 0x81, CHR 0xE4, CHR 0xB9, CHR 0xA6]"

definition name_port :: string where
  \<comment> \<open>U+7AEF U+53E3: "port"\<close>
  "name_port = [CHR 0xE7, CHR 0xAB, CHR 0xAF, CHR 0xE5, CHR 0x8F, CHR 0xA3]"

definition name_push :: string where
  \<comment> \<open>U+63A8 U+9001: "push"\<close>
  "name_push = [CHR 0xE6, CHR 0x8E, CHR 0xA8, CHR 0xE9, CHR 0x80, CHR 0x81]"

definition msg_abnormal :: string where
  \<comment> \<open>SP U+5F02 U+5E38 : SP: "abnormal:"\<close>
  "msg_abnormal = '' '' @ [CHR 0xE5, CHR 0xBC, CHR 0x82, CHR 0xE5, CHR 0xB8, CHR 0xB8] @ '': ''"

definition msg_recovered :: string where
  \<comment> \<open>SP U+6062 U+590D U+6B63 U+5E38: "back to normal"\<close>
  "msg_recovered =
     '' '' @ [CHR 0xE6, CHR 0x81, CHR 0xA2, CHR 0xE5, CHR 0xA4, CHR 0x8D, CHR 0xE6, CHR 0xAD,
     CHR 0xA3, CHR 0xE5, CHR 0xB8, CHR 0xB8]"

definition msg_deleted :: string where
  \<comment> \<open>U+5220 U+9664 U+76D1 U+63A7 U+9879 U+76EE : SP: "monitor deleted:"\<close>
  "msg_deleted =
     [CHR 0xE5, CHR 0x88, CHR 0xA0, CHR 0xE9, CHR 0x99, CHR 0xA4, CHR 0xE7, CHR 0x9B, CHR 0x91,
     CHR 0xE6, CHR 0x8E, CHR 0xA7, CHR 0xE9, CHR 0xA1, CHR 0xB9, CHR 0xE7, CHR 0x9B,
     CHR 0xAE] @ '': ''"

section \<open>The probes of \<open>MonitorChecker\<close>\<close>

text \<open>
  A probe takes the world, the number \<open>n\<close> of network calls made before it, and the
  monitor; it gives the result or the exception it raises, and the calls it made.
\<close>

type_synonym probe_outcome = "(pyexn + check_result) \<times> io_call list"

definition load_headers :: "headers_json \<Rightarrow> pyexn + (string \<times> string) list" where
  \<comment> \<open>\<open>json.loads\<close> guarded by the bare \<open>except\<close>, then \<open>headers.setdefault('User-Agent', ...)\<close>,
      which only a dict has\<close>
  "load_headers h =
     (case h of
        Headers_invalid \<Rightarrow> Inr [(''User-Agent'', ''SiteMonitor/1.0'')]
      | Headers_dict kvs \<Rightarrow>
          Inr (if map_of kvs ''User-Agent'' = None
               then kvs @ [(''User-Agent'', ''SiteMonitor/1.0'')] else kvs)
      | Headers_other ty \<Rightarrow>
          Inl (Other_Exception
                (CHR 0x27 # ty @ CHR 0x27 # '' object has no attribute '' @ CHR 0x27 # ''setdefault'' @ [CHR 0x27])))"

definition http_call :: "world \<Rightarrow> monitor \<Rightarrow> (string \<times> string) list \<Rightarrow> io_call" where
  "http_call w m hs =
     (if py_upper w (http_method m) = ''POST'' then Requests_post (target m) (body m) hs (timeout m)
      else if py_upper w (http_method m) = ''HEAD'' then Requests_head (target m) hs (timeout m)
      else Requests_get (target m) (Some hs) (timeout m))"

definition check_http :: "world \<Rightarrow> nat \<Rightarrow> monitor \<Rightarrow> probe_outcome" where
  "check_http w n m =
     (case load_headers (headers m) of
        Inl e \<Rightarrow> (Inl e, [])
      | Inr hs \<Rightarrow>
          (let call = http_call w m hs in
           (case requests w n call of
              Inr (code, text) \<Rightarrow>
                (let st = (if code = expected_status m \<or> code < 400 then 1 else 0) in
                 (Inr \<lparr>status = st, response_time = elapsed_ms w n, status_code = code,
                       message = (if st \<noteq> 0 then ''OK'' else msg_status_code @ str_int code)\<rparr>,
                  [call]))
            | Inl (Requests_Timeout e) \<Rightarrow>
                (Inr \<lparr>status = 0, response_time = timeout m * 1000, status_code = 0,
                      message = msg_request_timeout\<rparr>, [call])
            | Inl (Requests_SSLError e) \<Rightarrow>
                (Inr \<lparr>status = 0, response_time = 0, status_code = 0,
                      message = msg_ssl_cert_error @ py_slice_to 100 e\<rparr>, [call])
            | Inl (Requests_ConnectionError e) \<Rightarrow>
                (Inr \<lparr>status = 0, response_time = 0, status_code = 0,
                      message = msg_connection_failed\<rparr>, [call])
            | Inl e \<Rightarrow>
                (Inr \<lparr>status = 0, response_time = 0, status_code = 0,
                      message = py_slice_to 200 (str_exn e)\<rparr>, [call]))))"

definition check_keyword :: "world \<Rightarrow> nat \<Rightarrow> monitor \<Rightarrow> probe_outcome" where
  "check_keyword w n m =
     (case check_http w n m of
        (Inl e, cs) \<Rightarrow> (Inl e, cs)
      | (Inr result, cs) \<Rightarrow>
          (if status result = 1 \<and> keyword m \<noteq> []
           then (let call = Requests_get (target m) None (timeout m) in
                 (case requests w (n + length cs) call of
                    Inr (code, text) \<Rightarrow>
                      (if sublist (keyword m) text
                       then (Inr (result\<lparr>message := msg_keyword_found @ keyword m\<rparr>), cs @ [call])
                       else (Inr (result\<lparr>status := 0,
                                         message := msg_keyword_not_found @ keyword m\<rparr>),
                             cs @ [call]))
                  | Inl e \<Rightarrow> (Inr result, cs @ [call])))
           else (Inr result, cs)))"

definition check_port :: "world \<Rightarrow> nat \<Rightarrow> monitor \<Rightarrow> probe_outcome" where
  "check_port w n m =
     (case (if CHR '':'' \<in> set (target m) \<and> \<not> startswith (target m) ''[''
            then (case py_int w (rsplit_last CHR '':'' (target m) ! 1) of
                    Inl e \<Rightarrow> Inl e
                  | Inr p \<Rightarrow> Inr (rsplit_last CHR '':'' (target m) ! 0, p))
            else Inr (target m, port m)) of
        Inl e \<Rightarrow> (Inl e, [])
      | Inr (host, p) \<Rightarrow>
          (let call = Connect_ex host p (timeout m) in
           (case connect_ex w n call of
              Inr r \<Rightarrow>
                (if r = 0
                 then (Inr \<lparr>status = 1, response_time = elapsed_ms w n, status_code = 0,
                            message = msg_port @ str_int p @ msg_open\<rparr>, [call])
                 else (Inr \<lparr>status = 0, response_time = 0, status_code = 0,
                            message = msg_port @ str_int p @ msg_not_open\<rparr>, [call]))
            | Inl (Socket_timeout e) \<Rightarrow>
                (Inr \<lparr>status = 0, response_time = timeout m * 1000, status_code = 0,
                      message = msg_connect_timeout\<rparr>, [call])
            | Inl e \<Rightarrow>
                (Inr \<lparr>status = 0, response_time = 0, status_code = 0, message = str_exn e\<rparr>,
                 [call]))))"

definition check_ping :: "world \<Rightarrow> nat \<Rightarrow> monitor \<Rightarrow> probe_outcome" where
  "check_ping w n m = check_port w n (m\<lparr>port := 80\<rparr>)"

definition microseconds_per_day :: int where
  "microseconds_per_day = 86400000000"

definition cert_result :: "int \<Rightarrow> int \<Rightarrow> check_result" where
  \<comment> \<open>the four branches of \<open>check_ssl_cert\<close> on \<open>days_left\<close>\<close>
  "cert_result rt days_left =
     (if days_left \<le> 0
      then \<lparr>status = 0, response_time = rt, status_code = days_left, message = msg_cert_expired\<rparr>
      else if days_left \<le> 7
      then \<lparr>status = 0, response_time = rt, status_code = days_left,
            message = msg_cert_expires_in @ str_int days_left @ msg_days_until_expired\<rparr>
      else if days_left \<le> 30
      then \<lparr>status = 1, response_time = rt, status_code = days_left,
            message = msg_cert_remaining @ str_int days_left @ msg_days_expiring\<rparr>
      else \<lparr>status = 1, response_time = rt, status_code = days_left,
            message = msg_cert_valid @ str_int days_left @ msg_days\<rparr>)"

definition check_ssl_cert :: "world \<Rightarrow> nat \<Rightarrow> monitor \<Rightarrow> probe_outcome" where
  "check_ssl_cert w n m =
     (case (if startswith (target m) ''http'' then urlparse_hostname w (target m)
            else Inr (Some (split_head CHR '':'' (target m)))) of
        Inl e \<Rightarrow> (Inl e, [])
      | Inr hostname \<Rightarrow>
          (let call = Tls_getpeercert hostname 443 in
           (case (case getpeercert w n call of
                    Inl e \<Rightarrow> Inl e
                  | Inr None \<Rightarrow> Inl (Other_Exception (CHR 0x27 # ''notAfter'' @ [CHR 0x27]))
                  | Inr (Some expire_date_str) \<Rightarrow>
                      (case strptime w expire_date_str ''%b %d %H:%M:%S %Y %Z'' of
                         Inl e \<Rightarrow> Inl e
                       | Inr expire_date \<Rightarrow>
                           Inr (cert_result (elapsed_ms w n)
                                  ((expire_date - now w (Suc n)) div microseconds_per_day)))) of
              Inr r \<Rightarrow> (Inr r, [call])
            | Inl (Ssl_SSLError e) \<Rightarrow>
                (Inr \<lparr>status = 0, response_time = 0, status_code = 0,
                      message = msg_ssl_error @ py_slice_to 100 e\<rparr>, [call])
            | Inl e \<Rightarrow>
                (Inr \<lparr>status = 0, response_time = 0, status_code = 0,
                      message = py_slice_to 200 (str_exn e)\<rparr>, [call]))))"

text \<open>
  \<open>get_last_heartbeat\<close>: \<open>SELECT ... WHERE monitor_id = ? ORDER BY created_at DESC LIMIT 1\<close>
  over the table in insertion order. \<open>created_at\<close> is text and is compared as text. SQL
  leaves open which row is taken among equal \<open>created_at\<close>; the model takes the one
  inserted last.
\<close>

fun latest_row :: "heartbeat option \<Rightarrow> heartbeat list \<Rightarrow> heartbeat option" where
  "latest_row best [] = best"
| "latest_row None (h # hs) = latest_row (Some h) hs"
| "latest_row (Some b) (h # hs) =
     latest_row (if hb_created_at b \<le> hb_created_at h then Some h else Some b) hs"

definition get_last_heartbeat :: "heartbeat list \<Rightarrow> int \<Rightarrow> heartbeat option" where
  "get_last_heartbeat tbl i = latest_row None (filter (\<lambda>h. hb_monitor_id h = i) tbl)"

definition check_push :: "world \<Rightarrow> heartbeat list \<Rightarrow> nat \<Rightarrow> monitor \<Rightarrow> probe_outcome" where
  "check_push w tbl n m =
     (case get_last_heartbeat tbl (monitor_id m) of
        None \<Rightarrow>
          (Inr \<lparr>status = 0, response_time = 0, status_code = 0, message = msg_never_received\<rparr>, [])
      | Some last_beat \<Rightarrow>
          (case strptime w (hb_created_at last_beat) ''%Y-%m-%d %H:%M:%S'' of
             Inl e \<Rightarrow> (Inl e, [])
           | Inr beat_time \<Rightarrow>
               (let timeout_threshold = now w n - interval m * 2 * 1000000 in
                if beat_time < timeout_threshold
                then (Inr \<lparr>status = 0, response_time = 0, status_code = 0,
                           message = msg_heartbeat_stale @ hb_created_at last_beat\<rparr>, [])
                else (Inr \<lparr>status = hb_status last_beat, response_time = 0, status_code = 0,
                           message = hb_message last_beat\<rparr>, []))))"

definition unpack2 :: "string list \<Rightarrow> pyexn + string \<times> string" where
  \<comment> \<open>\<open>a, b = parts\<close>\<close>
  "unpack2 parts =
     (case parts of
        [a, b] \<Rightarrow> Inr (a, b)
      | _ \<Rightarrow> Inl (Other_Exception ''not enough values to unpack (expected 2, got 1)''))"

definition host_port :: "world \<Rightarrow> string \<Rightarrow> int \<Rightarrow> pyexn + string \<times> int" where
  \<comment> \<open>\<open>host, port = s.rsplit(':', 1); port = int(port)\<close>, or the default port\<close>
  "host_port w s dflt =
     (if CHR '':'' \<in> set s
      then (case py_int w (rsplit_last CHR '':'' s ! 1) of
              Inl e \<Rightarrow> Inl e
            | Inr p \<Rightarrow> Inr (rsplit_last CHR '':'' s ! 0, p))
      else Inr (s, dflt))"

definition mysql_call :: "world \<Rightarrow> monitor \<Rightarrow> pyexn + io_call" where
  \<comment> \<open>the parse of \<open>host:port\<close> or \<open>user:pass@host:port/db\<close> in \<open>check_mysql\<close>\<close>
  "mysql_call w m =
     (case (if CHR ''@'' \<in> set (target m)
            then (case unpack2 (split_first CHR '':'' (split_first CHR ''@'' (target m) ! 0)) of
                    Inl e \<Rightarrow> Inl e
                  | Inr (user, password) \<Rightarrow>
                      (let rest = split_first CHR ''@'' (target m) ! 1 in
                       if CHR ''/'' \<in> set rest
                       then Inr (user, password, rsplit_last CHR ''/'' rest ! 0,
                                 rsplit_last CHR ''/'' rest ! 1)
                       else Inr (user, password, rest, [])))
            else Inr (''root'', [], target m, [])) of
        Inl e \<Rightarrow> Inl e
      | Inr (user, password, hp, db) \<Rightarrow>
          (case host_port w hp 3306 of
             Inl e \<Rightarrow> Inl e
           | Inr (host, p) \<Rightarrow>
               Inr (Pymysql_connect host p user password (if db \<noteq> [] then Some db else None)
                      (timeout m))))"

definition check_mysql :: "world \<Rightarrow> nat \<Rightarrow> monitor \<Rightarrow> probe_outcome" where
  "check_mysql w n m =
     (case pymysql w of
        None \<Rightarrow>
          (Inr \<lparr>status = 0, response_time = 0, status_code = 0, message = msg_no_pymysql\<rparr>, [])
      | Some connect \<Rightarrow>
          (case mysql_call w m of
             Inl e \<Rightarrow>
               (Inr \<lparr>status = 0, response_time = 0, status_code = 0,
                     message = msg_mysql_failed @ py_slice_to 100 (str_exn e)\<rparr>, [])
           | Inr call \<Rightarrow>
               (case connect n call of
                  None \<Rightarrow>
                    (Inr \<lparr>status = 1, response_time = elapsed_ms w n, status_code = 0,
                          message = msg_mysql_ok\<rparr>, [call])
                | Some e \<Rightarrow>
                    (Inr \<lparr>status = 0, response_time = 0, status_code = 0,
                          message = msg_mysql_failed @ py_slice_to 100 (str_exn e)\<rparr>, [call]))))"

definition check_redis :: "world \<Rightarrow> nat \<Rightarrow> monitor \<Rightarrow> probe_outcome" where
  "check_redis w n m =
     (case redis w of
        None \<Rightarrow>
          (Inr \<lparr>status = 0, response_time = 0, status_code = 0, message = msg_no_redis\<rparr>, [])
      | Some ping \<Rightarrow>
          (case host_port w (if startswith (target m) ''redis://'' then drop 8 (target m)
                            else target m) 6379 of
             Inl e \<Rightarrow>
               (Inr \<lparr>status = 0, response_time = 0, status_code = 0,
                     message = msg_redis_failed @ py_slice_to 100 (str_exn e)\<rparr>, [])
           | Inr (host, p) \<Rightarrow>
               (let call = Redis_ping host p (timeout m) in
                (case ping n call of
                   None \<Rightarrow>
                     (Inr \<lparr>status = 1, response_time = elapsed_ms w n, status_code = 0,
                           message = msg_redis_ok\<rparr>, [call])
                 | Some e \<Rightarrow>
                     (Inr \<lparr>status = 0, response_time = 0, status_code = 0,
                           message = msg_redis_failed @ py_slice_to 100 (str_exn e)\<rparr>, [call])))))"

text \<open>The dispatch table of \<open>check\<close>, and \<open>checkers.get(monitor_type, self.check_http)\<close>.\<close>

definition checkers ::
  "world \<Rightarrow> heartbeat list \<Rightarrow> nat \<Rightarrow> (string \<times> (monitor \<Rightarrow> probe_outcome)) list" where
  "checkers w tbl n =
     [(''http'', check_http w n),
      (''https'', check_http w n),
      (''keyword'', check_keyword w n),
      (''port'', check_port w n),
      (''tcp'', check_port w n),
      (''ping'', check_ping w n),
      (''ssl'', check_ssl_cert w n),
      (''push'', check_push w tbl n),
      (''mysql'', check_mysql w n),
      (''redis'', check_redis w n)]"

definition checker_for ::
  "world \<Rightarrow> heartbeat list \<Rightarrow> nat \<Rightarrow> string \<Rightarrow> monitor \<Rightarrow> probe_outcome" where
  "checker_for w tbl n monitor_type =
     (case map_of (checkers w tbl n) monitor_type of
        Some checker \<Rightarrow> checker
      | None \<Rightarrow> check_http w n)"

definition check :: "world \<Rightarrow> heartbeat list \<Rightarrow> nat \<Rightarrow> monitor \<Rightarrow> check_result \<times> io_call list" where
  "check w tbl n m =
     (case checker_for w tbl n (type m) m of
        (Inr r, cs) \<Rightarrow> (r, cs)
      | (Inl e, cs) \<Rightarrow>
          (\<lparr>status = 0, response_time = 0, status_code = 0, message = str_exn e\<rparr>, cs))"

section \<open>Store, state tracker and scheduler of \<open>app.py\<close>\<close>

record log_row =
  log_monitor_id :: int
  log_check_type :: string
  log_status :: int
  log_response_time :: int
  log_status_code :: int
  log_message :: string

record event =
  ev_monitor_id :: "int option"
  ev_type :: string
  ev_message :: string

text \<open>A call \<open>send_notification(monitor, status, message)\<close>.\<close>

record notification =
  nt_monitor :: monitor
  nt_status :: int
  nt_message :: string

text \<open>
  The state of the process: the tables of the database (\<open>monitors\<close> in the order
  \<open>get_all_monitors\<close> returns them, the others in insertion order), the global
  \<open>last_status\<close>, the job store of the scheduler keyed by job id with the arguments of
  each job, the notifications requested and the network calls made so far. Rows of
  \<open>monitors\<close> have no key \<open>type\<close>; both callers of \<open>check\<close> set it first.
\<close>

record app_state =
  monitors :: "monitor list"
  monitor_logs :: "log_row list"
  heartbeats :: "heartbeat list"
  events :: "event list"
  last_status :: "int \<rightharpoonup> (string \<rightharpoonup> int)"
  jobs :: "string \<rightharpoonup> monitor \<times> int"
  sent :: "notification list"
  calls :: "io_call list"

definition TYPE_NAMES :: "(string \<times> string) list" where
  "TYPE_NAMES =
     [(''http'', ''HTTP''),
      (''keyword'', name_keyword),
      (''ssl'', name_ssl),
      (''port'', name_port),
      (''push'', name_push),
      (''mysql'', ''MySQL''),
      (''redis'', ''Redis'')]"

definition type_name_of :: "string \<Rightarrow> string" where
  \<comment> \<open>\<open>TYPE_NAMES.get(check_type, check_type)\<close>\<close>
  "type_name_of check_type =
     (case map_of TYPE_NAMES check_type of Some n \<Rightarrow> n | None \<Rightarrow> check_type)"

definition add_log ::
  "int \<Rightarrow> string \<Rightarrow> int \<Rightarrow> int \<Rightarrow> int \<Rightarrow> string \<Rightarrow> app_state \<Rightarrow> app_state" where
  "add_log i check_type st rt code msg s =
     s\<lparr>monitor_logs := monitor_logs s @
          [\<lparr>log_monitor_id = i, log_check_type = check_type, log_status = st,
            log_response_time = rt, log_status_code = code, log_message = msg\<rparr>]\<rparr>"

definition add_event :: "int option \<Rightarrow> string \<Rightarrow> string \<Rightarrow> app_state \<Rightarrow> app_state" where
  "add_event i event_type msg s =
     s\<lparr>events := events s @ [\<lparr>ev_monitor_id = i, ev_type = event_type, ev_message = msg\<rparr>]\<rparr>"

definition send_notification :: "monitor \<Rightarrow> int \<Rightarrow> string \<Rightarrow> app_state \<Rightarrow> app_state" where
  "send_notification m st msg s =
     s\<lparr>sent := sent s @ [\<lparr>nt_monitor = m, nt_status = st, nt_message = msg\<rparr>]\<rparr>"

definition add_heartbeat :: "int \<Rightarrow> int \<Rightarrow> string \<Rightarrow> string \<Rightarrow> app_state \<Rightarrow> app_state" where
  \<comment> \<open>\<open>created_at\<close> is what \<open>CURRENT_TIMESTAMP\<close> gives at the insert\<close>
  "add_heartbeat i st msg created_at s =
     add_log i ''push'' st 0 0 msg
       (s\<lparr>heartbeats := heartbeats s @
            [\<lparr>hb_monitor_id = i, hb_status = st, hb_message = msg,
              hb_created_at = created_at\<rparr>]\<rparr>)"

definition get_monitor :: "app_state \<Rightarrow> int \<Rightarrow> monitor option" where
  "get_monitor s i = find (\<lambda>m. monitor_id m = i) (monitors s)"

definition delete_monitor :: "int \<Rightarrow> app_state \<Rightarrow> app_state" where
  "delete_monitor i s = s\<lparr>monitors := filter (\<lambda>m. monitor_id m \<noteq> i) (monitors s)\<rparr>"

definition types_of :: "monitor \<Rightarrow> string list" where
  \<comment> \<open>\<open>json.loads(types_str)\<close>, and \<open>['http']\<close> when it raises\<close>
  "types_of m = (case types m of Some ts \<Rightarrow> ts | None \<Rightarrow> [''http''])"

definition tracked :: "app_state \<Rightarrow> int \<Rightarrow> string \<rightharpoonup> int" where
  \<comment> \<open>\<open>last_status[monitor_id]\<close> inside the loop of \<open>check_monitor\<close>, which creates the
      entry before the loop when it is missing\<close>
  "tracked s i = (case last_status s i of Some d \<Rightarrow> d | None \<Rightarrow> Map.empty)"

definition check_one :: "world \<Rightarrow> monitor \<Rightarrow> app_state \<Rightarrow> string \<Rightarrow> app_state" where
  \<comment> \<open>the body of the loop of \<open>check_monitor\<close>\<close>
  "check_one w m s check_type =
     (if check_type = ''push'' then s
      else
        (case check w (heartbeats s) (length (calls s)) (m\<lparr>type := check_type\<rparr>) of
           (result, cs) \<Rightarrow>
             (let s1 = add_log (monitor_id m) check_type (status result) (response_time result)
                         (status_code result) (message result) (s\<lparr>calls := calls s @ cs\<rparr>);
                  prev_status = tracked s1 (monitor_id m) check_type;
                  current_status = status result;
                  s2 = (if prev_status \<noteq> None \<and> prev_status \<noteq> Some current_status
                        then (let type_name = type_name_of check_type;
                                  event_type = (if current_status = 0 then ''down'' else ''up'');
                                  event_msg =
                                    (if current_status = 0
                                     then name m @ '' ['' @ type_name @ '']'' @ msg_abnormal @
                                          message result
                                     else name m @ '' ['' @ type_name @ '']'' @ msg_recovered)
                              in send_notification m current_status
                                   (''['' @ type_name @ ''] '' @ message result)
                                   (add_event (Some (monitor_id m)) event_type event_msg s1))
                        else s1)
              in s2\<lparr>last_status :=
                      (last_status s2)(monitor_id m \<mapsto>
                         (tracked s2 (monitor_id m))(check_type \<mapsto> current_status))\<rparr>)))"

definition check_monitor :: "world \<Rightarrow> monitor \<Rightarrow> app_state \<Rightarrow> app_state" where
  "check_monitor w m s =
     (if enabled m = 0 then s
      else foldl (check_one w m)
             (if last_status s (monitor_id m) = None
              then s\<lparr>last_status := (last_status s)(monitor_id m \<mapsto> Map.empty)\<rparr>
              else s)
             (types_of m))"

definition job_id_of :: "int \<Rightarrow> string" where
  \<comment> \<open>\<open>f"monitor_{id}"\<close>\<close>
  "job_id_of i = ''monitor_'' @ str_int i"

definition schedule_monitor :: "monitor \<Rightarrow> app_state \<Rightarrow> app_state" where
  "schedule_monitor m s =
     (let job_id = job_id_of (monitor_id m);
          s1 = s\<lparr>jobs := (jobs s)(job_id := None)\<rparr>;
          has_active_types = list_ex (\<lambda>t. t \<noteq> ''push'') (types_of m)
      in if enabled m \<noteq> 0 \<and> has_active_types
         then s1\<lparr>jobs := (jobs s1)(job_id \<mapsto> (m, interval m))\<rparr>
         else s1)"

definition fire_job :: "world \<Rightarrow> string \<Rightarrow> app_state \<Rightarrow> app_state" where
  \<comment> \<open>a tick of the scheduler: the job with this id, if the job store holds one, runs
      \<open>check_monitor\<close> on its stored argument\<close>
  "fire_job w job_id s =
     (case jobs s job_id of None \<Rightarrow> s | Some (m, seconds) \<Rightarrow> check_monitor w m s)"

datatype response =
    Json_success
  | Json_error int
  | Json_check "int" "string \<rightharpoonup> check_result"
  | Json_ok

definition api_delete_monitor :: "bool \<Rightarrow> int \<Rightarrow> app_state \<Rightarrow> response \<times> app_state" where
  \<comment> \<open>\<open>authorized\<close> is the value of \<open>check_auth()\<close>\<close>
  "api_delete_monitor authorized i s =
     (if \<not> authorized then (Json_error 401, s)
      else
        (case get_monitor s i of
           None \<Rightarrow> (Json_error 404, s)
         | Some m \<Rightarrow>
             (Json_success,
              add_event None ''delete'' (msg_deleted @ name m)
                (delete_monitor i (s\<lparr>jobs := (jobs s)(job_id_of i := None)\<rparr>)))))"

definition check_now_one ::
  "world \<Rightarrow> monitor \<Rightarrow> int \<Rightarrow> (int \<times> (string \<rightharpoonup> check_result)) \<times> app_state \<Rightarrow> string \<Rightarrow>
   (int \<times> (string \<rightharpoonup> check_result)) \<times> app_state" where
  \<comment> \<open>the body of the loop of \<open>api_check_now\<close>\<close>
  "check_now_one w m i acc check_type =
     (case acc of
        ((overall_status, results), s) \<Rightarrow>
          (if check_type = ''push'' then acc
           else
             (case check w (heartbeats s) (length (calls s)) (m\<lparr>type := check_type\<rparr>) of
                (result, cs) \<Rightarrow>
                  ((if status result = 0 then 0 else overall_status,
                    results(check_type \<mapsto> result)),
                   add_log i check_type (status result) (response_time result)
                     (status_code result) (message result) (s\<lparr>calls := calls s @ cs\<rparr>)))))"

definition api_check_now :: "world \<Rightarrow> int \<Rightarrow> app_state \<Rightarrow> response \<times> app_state" where
  "api_check_now w i s =
     (case get_monitor s i of
        None \<Rightarrow> (Json_error 404, s)
      | Some m \<Rightarrow>
          (case foldl (check_now_one w m i) ((1, Map.empty), s) (types_of m) of
             ((overall_status, results), s') \<Rightarrow> (Json_check overall_status results, s')))"

text \<open>
  A request to \<open>/api/push/<token>\<close>. \<open>req_json\<close> is \<open>request.json\<close> when it is a non-empty
  object, with its entries \<open>status\<close> (an integer), \<open>msg\<close> and \<open>message\<close> (strings) where
  present; \<open>arg_status\<close> and \<open>arg_msg\<close> are the query parameters.
\<close>

record push_json =
  json_status :: "int option"
  json_msg :: "string option"
  json_message :: "string option"

record push_request =
  req_method :: string
  req_json :: "push_json option"
  arg_status :: "string option"
  arg_msg :: "string option"

definition push_target :: "app_state \<Rightarrow> string \<Rightarrow> monitor option" where
  \<comment> \<open>the first monitor with a \<open>push\<close> type whose id or target is the token\<close>
  "push_target s token =
     find (\<lambda>m. ''push'' \<in> set (types_of m) \<and>
                (str_int (monitor_id m) = token \<or> target m = token)) (monitors s)"

definition push_payload :: "world \<Rightarrow> push_request \<Rightarrow> pyexn + int \<times> string" where
  "push_payload w req =
     (case (if req_method req = ''POST'' then req_json req else None) of
        Some j \<Rightarrow>
          Inr (case json_status j of Some st \<Rightarrow> st | None \<Rightarrow> 1,
               case json_msg j of
                 Some t \<Rightarrow> t
               | None \<Rightarrow> (case json_message j of Some t \<Rightarrow> t | None \<Rightarrow> ''OK''))
      | None \<Rightarrow>
          (case arg_status req of
             Some a \<Rightarrow>
               (if a \<noteq> []
                then (case py_int w a of
                        Inl e \<Rightarrow> Inl e
                      | Inr st \<Rightarrow> Inr (st, case arg_msg req of Some t \<Rightarrow> t | None \<Rightarrow> ''OK''))
                else Inr (1, ''OK''))
           | None \<Rightarrow> Inr (1, ''OK'')))"

definition api_push_heartbeat ::
  "world \<Rightarrow> string \<Rightarrow> push_request \<Rightarrow> string \<Rightarrow> app_state \<Rightarrow> response \<times> app_state" where
  \<comment> \<open>\<open>created_at\<close> is what \<open>CURRENT_TIMESTAMP\<close> gives at the insert; an exception that
      leaves the handler is the response 500\<close>
  "api_push_heartbeat w token req created_at s =
     (case push_target s token of
        None \<Rightarrow> (Json_error 404, s)
      | Some m \<Rightarrow>
          (case push_payload w req of
             Inl e \<Rightarrow> (Json_error 500, s)
           | Inr (st, msg) \<Rightarrow> (Json_ok, add_heartbeat (monitor_id m) st msg created_at s)))"

definition run_ticks :: "world \<Rightarrow> app_state \<Rightarrow> monitor list \<Rightarrow> app_state" where
  \<comment> \<open>scheduled ticks one after the other, each with the argument stored in its job\<close>
  "run_ticks w s ms = foldl (\<lambda>s m. check_monitor w m s) s ms"

section \<open>Transitions as the specification words them\<close>











section \<open>Example worlds and states\<close>

definition upper_ascii :: "string \<Rightarrow> string" where
  \<comment> \<open>\<open>str.upper\<close> on ASCII text\<close>
  "upper_ascii s =
     map (\<lambda>c. case map_of (zip ''abcdefghijklmnopqrstuvwxyz'' ''ABCDEFGHIJKLMNOPQRSTUVWXYZ'') c of
                 Some u \<Rightarrow> u
               | None \<Rightarrow> c) s"

definition decimal_int :: "string \<Rightarrow> pyexn + int" where
  \<comment> \<open>\<open>int(s)\<close> on strings of ASCII digits, and its \<open>ValueError\<close> on text with another character\<close>
  "decimal_int s =
     (if s \<noteq> [] \<and> list_all (\<lambda>c. CHR ''0'' \<le> c \<and> c \<le> CHR ''9'') s
      then Inr (foldl (\<lambda>a c. 10 * a + (of_char c - 48)) 0 s)
      else Inl (Other_Exception
             (''invalid literal for int() with base 10: '' @ CHR 0x27 # s @ [CHR 0x27])))"

definition example_strptime :: "string \<Rightarrow> string \<Rightarrow> pyexn + int" where
  \<comment> \<open>\<open>datetime.strptime\<close> on two texts, in microseconds since 2026-01-01 00:00:00\<close>
  "example_strptime text fmt =
     (if text = ''2026-01-01 00:00:00'' \<and> fmt = ''%Y-%m-%d %H:%M:%S'' then Inr 0
      else if text = ''Jan 31 00:00:00 2026 GMT'' \<and> fmt = ''%b %d %H:%M:%S %Y %Z''
      then Inr (30 * 86400000000)
      else Inl (Other_Exception ''time data does not match format''))"

definition example_world :: "(nat \<Rightarrow> pyexn + int \<times> string) \<Rightarrow> int \<Rightarrow> world" where
  \<comment> \<open>a world whose \<open>k\<close>-th HTTP request is answered by \<open>http k\<close> and whose clock reads \<open>t\<close>\<close>
  "example_world http t =
     \<lparr>requests = (\<lambda>k c. http k),
      connect_ex = (\<lambda>k c. Inr 0),
      getpeercert = (\<lambda>k c. Inr (Some ''Jan 31 00:00:00 2026 GMT'')),
      pymysql = None,
      redis = None,
      elapsed_ms = (\<lambda>k. 120),
      now = (\<lambda>k. t),
      strptime = example_strptime,
      py_int = decimal_int,
      py_upper = upper_ascii,
      urlparse_hostname =
        (\<lambda>u. if u = ''https://example.com'' then Inr (Some ''example.com'') else Inr None)\<rparr>"

definition offline_world :: world where
  \<comment> \<open>a world in which every network call fails\<close>
  "offline_world =
     \<lparr>requests = (\<lambda>k c. Inl (Requests_ConnectionError ''Max retries exceeded'')),
      connect_ex = (\<lambda>k c. Inr 111),
      getpeercert = (\<lambda>k c. Inl (Other_Exception ''[Errno 111] Connection refused'')),
      pymysql = Some (\<lambda>k c. Some (Other_Exception ''Can not connect to MySQL server'')),
      redis = Some (\<lambda>k c. Some (Other_Exception ''Error 111 connecting'')),
      elapsed_ms = (\<lambda>k. 0),
      now = (\<lambda>k. 0),
      strptime = example_strptime,
      py_int = decimal_int,
      py_upper = upper_ascii,
      urlparse_hostname =
        (\<lambda>u. if u = ''https://example.com'' then Inr (Some ''example.com'') else Inr None)\<rparr>"

definition ok_world :: world where
  \<comment> \<open>every request is answered 200 with the body \<open>all ok\<close>\<close>
  "ok_world = example_world (\<lambda>k. Inr (200, ''all ok'')) 0"

definition second_fetch_fails_world :: world where
  \<comment> \<open>the first request is answered 200, every later one times out\<close>
  "second_fetch_fails_world =
     example_world (\<lambda>k. if k = 0 then Inr (200, ''all ok'') else Inl (Requests_Timeout ''timed out'')) 0"

definition error_world :: world where
  \<comment> \<open>every request is answered 500\<close>
  "error_world = example_world (\<lambda>k. Inr (500, ''error'')) 0"

definition not_found_world :: world where
  \<comment> \<open>every request is answered 404\<close>
  "not_found_world = example_world (\<lambda>k. Inr (404, ''not found'')) 0"

definition flip_world :: world where
  \<comment> \<open>the first request is answered 200, every later one 500\<close>
  "flip_world = example_world (\<lambda>k. if k = 0 then Inr (200, ''ok'') else Inr (500, ''error'')) 0"

definition example_monitor :: monitor where
  "example_monitor =
     \<lparr>monitor_id = 1, name = ''A'', types = Some [''http''], type = [],
      target = ''https://example.com'', interval = 60, timeout = 30, http_method = ''GET'',
      headers = Headers_dict [], body = [], expected_status = 200, keyword = [], port = 0,
      notify_channels = ''[]'', enabled = 1\<rparr>"

definition example_state :: app_state where
  "example_state =
     \<lparr>monitors = [example_monitor], monitor_logs = [], heartbeats = [], events = [],
      last_status = Map.empty, jobs = Map.empty, sent = [], calls = []\<rparr>"

definition example_beat :: "int \<Rightarrow> heartbeat" where
  "example_beat st =
     \<lparr>hb_monitor_id = 1, hb_status = st, hb_message = ''disk full'',
      hb_created_at = ''2026-01-01 00:00:00''\<rparr>"

definition expects_404 :: monitor where
  \<comment> \<open>the example monitor as \<open>check_monitor\<close> hands it to the HTTP probe, expecting 404\<close>
  "expects_404 = example_monitor\<lparr>type := ''http'', expected_status := 404\<rparr>"

definition push_monitor :: monitor where
  \<comment> \<open>a monitor that only waits for heartbeats\<close>
  "push_monitor = example_monitor\<lparr>types := Some [''push'']\<rparr>"

definition push_state :: app_state where
  "push_state = example_state\<lparr>monitors := [push_monitor]\<rparr>"

definition push_status_2 :: push_request where
  \<comment> \<open>\<open>POST /api/push/1\<close> with the body \<open>{"status": 2}\<close>\<close>
  "push_status_2 =
     \<lparr>req_method = ''POST'',
      req_json = Some \<lparr>json_status = Some 2, json_msg = None, json_message = None\<rparr>,
      arg_status = None, arg_msg = None\<rparr>"

definition tracked_state :: app_state where
  \<comment> \<open>the example monitor scheduled and checked once, with the answer 200\<close>
  "tracked_state =
     check_monitor flip_world example_monitor (schedule_monitor example_monitor example_state)"

definition keyword_monitor :: "string \<Rightarrow> monitor" where
  "keyword_monitor kw = example_monitor\<lparr>types := Some [''keyword''], keyword := kw\<rparr>"

section \<open>Evaluating the examples\<close>

lemmas probe_defs = check_def checker_for_def checkers_def check_http_def load_headers_def
  http_call_def Let_def

lemmas example_defs = example_world_def ok_world_def error_world_def not_found_world_def
  second_fetch_fails_world_def flip_world_def offline_world_def example_monitor_def
  example_state_def example_beat_def upper_ascii_def decimal_int_def example_strptime_def

lemmas app_defs = check_monitor_def check_one_def add_log_def add_event_def
  send_notification_def tracked_def types_of_def type_name_of_def TYPE_NAMES_def run_ticks_def

lemmas str_defs = str_int_def digits_of.simps digit_char_def

section \<open>The state tracker\<close>





















section \<open>The probes\<close>

text \<open>
  C2. When the request of the HTTP probe is answered with code \<open>c\<close>, the probe returns a
  result, it made that one request, the status is 1 if \<open>c < 400\<close> or \<open>c\<close> is the expected
  status and 0 otherwise, and the auxiliary field carries \<open>c\<close>; \<open>check\<close> returns the same
  for the types \<open>http\<close> and \<open>https\<close>. So an expected status rescues a code from 400 on and
  never turns a code below 400 into a failure.
\<close>

theorem check_http_status:
  assumes "load_headers (headers m) = Inr hs"
      and "requests w n (http_call w m hs) = Inr (c, text)"
  shows "\<exists>r. check_http w n m = (Inr r, [http_call w m hs]) \<and>
             (type m = ''http'' \<or> type m = ''https'' \<longrightarrow>
                check w tbl n m = (r, [http_call w m hs])) \<and>
             (status r = 1 \<longleftrightarrow> c < 400 \<or> c = expected_status m) \<and>
             (status r = 0 \<longleftrightarrow> \<not> (c < 400 \<or> c = expected_status m)) \<and>
             (c < 400 \<longrightarrow> status r = 1) \<and>
             status_code r = c"
  using assms by (auto simp: check_http_def check_def checker_for_def checkers_def)

lemma example_requests:
  "load_headers (headers expects_404) = Inr [(''User-Agent'', ''SiteMonitor/1.0'')]"
  "load_headers (headers (example_monitor\<lparr>type := ''https''\<rparr>)) =
     Inr [(''User-Agent'', ''SiteMonitor/1.0'')]"
  "requests not_found_world 0 call = Inr (404, ''not found'')"
  "requests ok_world 0 call = Inr (200, ''all ok'')"
  "requests error_world 0 call = Inr (500, ''error'')"
  "expected_status expects_404 = 404"
  "expected_status (example_monitor\<lparr>type := ''https''\<rparr>) = 200"
  "type expects_404 = ''http''"
  by (simp_all add: load_headers_def expects_404_def example_defs)

text \<open>
  Code 404 with expected status 404 is up; code 200 with expected status 404 is up as
  well; code 500 with expected status 200 is down.
\<close>

theorem check_http_status_witness:
  "load_headers (headers expects_404) = Inr [(''User-Agent'', ''SiteMonitor/1.0'')] \<and>
   requests not_found_world 0
     (http_call not_found_world expects_404 [(''User-Agent'', ''SiteMonitor/1.0'')]) =
     Inr (404, ''not found'') \<and>
   status (fst (check not_found_world [] 0 expects_404)) = 1 \<and>
   status_code (fst (check not_found_world [] 0 expects_404)) = 404 \<and>
   status (fst (check ok_world [] 0 expects_404)) = 1 \<and>
   status_code (fst (check ok_world [] 0 expects_404)) = 200 \<and>
   status (fst (check error_world [] 0 (example_monitor\<lparr>type := ''https''\<rparr>))) = 0 \<and>
   status_code (fst (check error_world [] 0 (example_monitor\<lparr>type := ''https''\<rparr>))) = 500"
proof -
  note h = example_requests
  have a: "status (fst (check not_found_world [] 0 expects_404)) = 1 \<and>
           status_code (fst (check not_found_world [] 0 expects_404)) = 404"
    using check_http_status[OF h(1) h(3), of "[]"] by (auto simp: h)
  have b: "status (fst (check ok_world [] 0 expects_404)) = 1 \<and>
           status_code (fst (check ok_world [] 0 expects_404)) = 200"
    using check_http_status[OF h(1) h(4), of "[]"] by (auto simp: h)
  have c: "status (fst (check error_world [] 0 (example_monitor\<lparr>type := ''https''\<rparr>))) = 0 \<and>
           status_code (fst (check error_world [] 0 (example_monitor\<lparr>type := ''https''\<rparr>))) = 500"
    using check_http_status[OF h(2) h(5), of "[]"] by (auto simp: h)
  from h(1) h(3) a b c show ?thesis by simp
qed

text \<open>
  C3. When the TLS probe reads a certificate whose expiry parses, with \<open>days_left\<close> the whole
  days from now to the expiry, it returns a result after that one connection: down and
  "expired" for \<open>days_left \<le> 0\<close>, down and "will expire in \<open>days_left\<close> days" up to 7, up and
  "\<open>days_left\<close> days left (expiring soon)" up to 30, up and "valid" beyond; the auxiliary
  field carries \<open>days_left\<close>.
\<close>

theorem check_ssl_cert_days_left:
  assumes "(if startswith (target m) ''http'' then urlparse_hostname w (target m)
            else Inr (Some (split_head CHR '':'' (target m)))) = Inr hostname"
      and "getpeercert w n (Tls_getpeercert hostname 443) = Inr (Some not_after)"
      and "strptime w not_after ''%b %d %H:%M:%S %Y %Z'' = Inr expire_date"
      and "days_left = (expire_date - now w (Suc n)) div microseconds_per_day"
  shows "\<exists>r. check_ssl_cert w n m = (Inr r, [Tls_getpeercert hostname 443]) \<and>
     status_code r = days_left \<and>
     (days_left \<le> 0 \<longrightarrow> status r = 0 \<and> message r = msg_cert_expired) \<and>
     (0 < days_left \<and> days_left \<le> 7 \<longrightarrow>
        status r = 0 \<and>
        message r = msg_cert_expires_in @ str_int days_left @ msg_days_until_expired) \<and>
     (7 < days_left \<and> days_left \<le> 30 \<longrightarrow>
        status r = 1 \<and> message r = msg_cert_remaining @ str_int days_left @ msg_days_expiring) \<and>
     (30 < days_left \<longrightarrow>
        status r = 1 \<and> message r = msg_cert_valid @ str_int days_left @ msg_days)"
  using assms unfolding check_ssl_cert_def by (simp add: cert_result_def)

text \<open>
  The boundaries of the specification. The certificate of the example world expires 30
  days after the origin of its clock; the clock is set one hour short of 30, 23, 22, 0
  and -1 days, which leaves 0, 7, 8, 30 and 31 whole days.
\<close>

lemma example_cert:
  "(if startswith (target example_monitor) ''http''
    then urlparse_hostname (example_world http t) (target example_monitor)
    else Inr (Some (split_head CHR '':'' (target example_monitor)))) = Inr (Some ''example.com'')"
  "getpeercert (example_world http t) 0 (Tls_getpeercert (Some ''example.com'') 443) =
     Inr (Some ''Jan 31 00:00:00 2026 GMT'')"
  "strptime (example_world http t) ''Jan 31 00:00:00 2026 GMT'' ''%b %d %H:%M:%S %Y %Z'' =
     Inr 2592000000000"
  "now (example_world http t) (Suc 0) = t"
  by (simp_all add: example_world_def example_monitor_def startswith_def example_strptime_def)

lemma example_str_int:
  "str_int 7 = ''7''" "str_int 8 = ''8''" "str_int 30 = ''30''" "str_int 31 = ''31''"
  by (simp_all add: str_defs)

theorem check_ssl_cert_days_left_witness:
  "(\<exists>r. fst (check_ssl_cert (example_world (\<lambda>k. Inr (200, ''ok'')) 2588400000000) 0
               example_monitor) = Inr r \<and>
        status r = 0 \<and> status_code r = 0 \<and> message r = msg_cert_expired) \<and>
   (\<exists>r. fst (check_ssl_cert (example_world (\<lambda>k. Inr (200, ''ok'')) 1983600000000) 0
               example_monitor) = Inr r \<and>
        status r = 0 \<and> status_code r = 7 \<and>
        message r = msg_cert_expires_in @ ''7'' @ msg_days_until_expired) \<and>
   (\<exists>r. fst (check_ssl_cert (example_world (\<lambda>k. Inr (200, ''ok'')) 1897200000000) 0
               example_monitor) = Inr r \<and>
        status r = 1 \<and> status_code r = 8 \<and>
        message r = msg_cert_remaining @ ''8'' @ msg_days_expiring) \<and>
   (\<exists>r. fst (check_ssl_cert (example_world (\<lambda>k. Inr (200, ''ok'')) (- 3600000000)) 0
               example_monitor) = Inr r \<and>
        status r = 1 \<and> status_code r = 30 \<and>
        message r = msg_cert_remaining @ ''30'' @ msg_days_expiring) \<and>
   (\<exists>r. fst (check_ssl_cert (example_world (\<lambda>k. Inr (200, ''ok'')) (- 90000000000)) 0
               example_monitor) = Inr r \<and>
        status r = 1 \<and> status_code r = 31 \<and>
        message r = msg_cert_valid @ ''31'' @ msg_days)"
proof -
  note c = example_cert[of "\<lambda>k. Inr (200, ''ok'')"]
  note t = check_ssl_cert_days_left[OF c(1) c(2) c(3) refl]
  have d0: "\<exists>r. fst (check_ssl_cert (example_world (\<lambda>k. Inr (200, ''ok'')) 2588400000000) 0
                 example_monitor) = Inr r \<and>
        status r = 0 \<and> status_code r = 0 \<and> message r = msg_cert_expired"
    using t[of 2588400000000] by (auto simp: c(4) microseconds_per_day_def)
  have d7: "\<exists>r. fst (check_ssl_cert (example_world (\<lambda>k. Inr (200, ''ok'')) 1983600000000) 0
                 example_monitor) = Inr r \<and>
        status r = 0 \<and> status_code r = 7 \<and>
        message r = msg_cert_expires_in @ ''7'' @ msg_days_until_expired"
    using t[of 1983600000000] by (auto simp: c(4) microseconds_per_day_def example_str_int)
  have d8: "\<exists>r. fst (check_ssl_cert (example_world (\<lambda>k. Inr (200, ''ok'')) 1897200000000) 0
                 example_monitor) = Inr r \<and>
        status r = 1 \<and> status_code r = 8 \<and>
        message r = msg_cert_remaining @ ''8'' @ msg_days_expiring"
    using t[of 1897200000000] by (auto simp: c(4) microseconds_per_day_def example_str_int)
  have d30: "\<exists>r. fst (check_ssl_cert (example_world (\<lambda>k. Inr (200, ''ok'')) (- 3600000000)) 0
                  example_monitor) = Inr r \<and>
        status r = 1 \<and> status_code r = 30 \<and>
        message r = msg_cert_remaining @ ''30'' @ msg_days_expiring"
    using t[of "- 3600000000"] by (auto simp: c(4) microseconds_per_day_def example_str_int)
  have d31: "\<exists>r. fst (check_ssl_cert (example_world (\<lambda>k. Inr (200, ''ok'')) (- 90000000000)) 0
                  example_monitor) = Inr r \<and>
        status r = 1 \<and> status_code r = 31 \<and>
        message r = msg_cert_valid @ ''31'' @ msg_days"
    using t[of "- 90000000000"] by (auto simp: c(4) microseconds_per_day_def example_str_int)
  from d0 d7 d8 d30 d31 show ?thesis by (intro conjI)
qed





text \<open>Every probe but the push probe returns the status 0 or 1.\<close>

lemma check_http_binary: "fst (check_http w n m) = Inr r \<Longrightarrow> status r = 0 \<or> status r = 1"
  by (auto simp: check_http_def Let_def split: sum.splits pyexn.splits prod.splits if_splits)

lemma check_keyword_binary: "fst (check_keyword w n m) = Inr r \<Longrightarrow> status r = 0 \<or> status r = 1"
proof -
  assume a: "fst (check_keyword w n m) = Inr r"
  obtain x cs where h: "check_http w n m = (x, cs)" by (cases "check_http w n m")
  show ?thesis
  proof (cases x)
    case (Inl e)
    with a h show ?thesis by (simp add: check_keyword_def)
  next
    case (Inr r1)
    with h have "status r1 = 0 \<or> status r1 = 1" using check_http_binary[of w n m r1] by simp
    with a h Inr show ?thesis
      by (auto simp: check_keyword_def Let_def split: sum.splits prod.splits if_splits)
  qed
qed

lemma check_port_binary: "fst (check_port w n m) = Inr r \<Longrightarrow> status r = 0 \<or> status r = 1"
  by (auto simp: check_port_def Let_def split: sum.splits pyexn.splits prod.splits if_splits)

lemma check_ping_binary: "fst (check_ping w n m) = Inr r \<Longrightarrow> status r = 0 \<or> status r = 1"
  by (simp add: check_ping_def check_port_binary)

lemma cert_result_binary: "status (cert_result rt d) = 0 \<or> status (cert_result rt d) = 1"
  by (simp add: cert_result_def)

lemma check_ssl_cert_binary: "fst (check_ssl_cert w n m) = Inr r \<Longrightarrow> status r = 0 \<or> status r = 1"
  using cert_result_binary
  by (auto simp: check_ssl_cert_def Let_def split: sum.splits pyexn.splits prod.splits if_splits option.splits)

lemma check_mysql_binary: "fst (check_mysql w n m) = Inr r \<Longrightarrow> status r = 0 \<or> status r = 1"
  by (auto simp: check_mysql_def Let_def split: sum.splits pyexn.splits prod.splits if_splits option.splits)

lemma check_redis_binary: "fst (check_redis w n m) = Inr r \<Longrightarrow> status r = 0 \<or> status r = 1"
  by (auto simp: check_redis_def Let_def split: sum.splits pyexn.splits prod.splits if_splits option.splits)

lemma check_push_status:
  "fst (check_push w tbl n m) = Inr r \<Longrightarrow>
     status r = 0 \<or> (\<exists>hb. get_last_heartbeat tbl (monitor_id m) = Some hb \<and> status r = hb_status hb)"
  by (auto simp: check_push_def Let_def split: sum.splits prod.splits if_splits option.splits)

lemma latest_row_mem: "latest_row best hs = Some h \<Longrightarrow> h \<in> set hs \<or> best = Some h"
  by (induction best hs rule: latest_row.induct) (auto split: if_splits)

lemma get_last_heartbeat_mem: "get_last_heartbeat tbl i = Some h \<Longrightarrow> h \<in> set tbl \<and> hb_monitor_id h = i"
  using latest_row_mem[of None "filter (\<lambda>h. hb_monitor_id h = i) tbl" h]
  by (auto simp: get_last_heartbeat_def)


lemma checker_for_cases:
  "(t = ''push'' \<and> checker_for w tbl n t m = check_push w tbl n m) \<or>
   (t \<noteq> ''push'' \<and>
     (checker_for w tbl n t m = check_http w n m \<or>
      checker_for w tbl n t m = check_keyword w n m \<or>
      checker_for w tbl n t m = check_port w n m \<or>
      checker_for w tbl n t m = check_ping w n m \<or>
      checker_for w tbl n t m = check_ssl_cert w n m \<or>
      checker_for w tbl n t m = check_mysql w n m \<or>
      checker_for w tbl n t m = check_redis w n m))"
  by (simp add: checker_for_def checkers_def)

lemma active_probe_binary:
  assumes "t \<noteq> ''push''" and "fst (checker_for w tbl n t m) = Inr r"
  shows "status r = 0 \<or> status r = 1"
  using checker_for_cases[of t w tbl n m] assms
    check_http_binary[of w n m r] check_keyword_binary[of w n m r] check_port_binary[of w n m r]
    check_ping_binary[of w n m r] check_ssl_cert_binary[of w n m r] check_mysql_binary[of w n m r]
    check_redis_binary[of w n m r]
  by auto

lemma check_eq:
  "check w tbl n m =
     (case fst (checker_for w tbl n (type m) m) of
        Inr r \<Rightarrow> r
      | Inl e \<Rightarrow> \<lparr>status = 0, response_time = 0, status_code = 0, message = str_exn e\<rparr>,
      snd (checker_for w tbl n (type m) m))"
  by (simp add: check_def split: prod.split sum.split)










text \<open>
  C6, as the claim states it, fails on the push probe: the heartbeat endpoint stores the
  integer it is sent, and the probe returns the stored status. After
  \<open>POST /api/push/1\<close> with \<open>{"status": 2}\<close> the push probe of monitor 1 returns the status 2.
\<close>

theorem push_status_not_binary:
  "fst (api_push_heartbeat ok_world ''1'' push_status_2 ''2026-01-01 00:00:00'' push_state) =
     Json_ok \<and>
   status (fst (check ok_world
     (heartbeats (snd (api_push_heartbeat ok_world ''1'' push_status_2 ''2026-01-01 00:00:00''
                         push_state)))
     0 (push_monitor\<lparr>type := ''push''\<rparr>))) = 2"
  by (simp add: api_push_heartbeat_def push_target_def push_payload_def push_state_def push_monitor_def
     push_status_2_def example_defs types_of_def str_defs add_heartbeat_def add_log_def
     check_def checker_for_def checkers_def check_push_def get_last_heartbeat_def)

text \<open>
  C6, amended. The result of a probe of any type but \<open>push\<close> has the status 0 or 1. The
  result of the push probe has the status 0 or the status of the latest heartbeat stored
  for the monitor, unchanged. When every stored heartbeat has the status 0 or 1, so has
  every result. The heartbeat endpoint stores the status it is sent as it is: any
  integer of a JSON body, any integer \<open>int\<close> reads from the query.
\<close>

theorem check_status_values:
  "(type m \<noteq> ''push'' \<longrightarrow> status (fst (check w tbl n m)) \<in> {0, 1}) \<and>
   (type m = ''push'' \<longrightarrow>
      status (fst (check w tbl n m)) = 0 \<or>
      (\<exists>hb. get_last_heartbeat tbl (monitor_id m) = Some hb \<and>
            status (fst (check w tbl n m)) = hb_status hb)) \<and>
   ((\<forall>hb \<in> set tbl. hb_status hb \<in> {0, 1}) \<longrightarrow> status (fst (check w tbl n m)) \<in> {0, 1}) \<and>
   (\<forall>pm st msg.
      push_target s token = Some pm \<and> push_payload w req = Inr (st, msg) \<longrightarrow>
      heartbeats (snd (api_push_heartbeat w token req created_at s)) =
        heartbeats s @
          [\<lparr>hb_monitor_id = monitor_id pm, hb_status = st, hb_message = msg,
            hb_created_at = created_at\<rparr>]) \<and>
   (\<forall>j st. req_method req = ''POST'' \<and> req_json req = Some j \<and> json_status j = Some st \<longrightarrow>
      map_sum id fst (push_payload w req) = Inr st) \<and>
   (\<forall>a st. (req_method req \<noteq> ''POST'' \<or> req_json req = None) \<and> arg_status req = Some a \<and>
            a \<noteq> [] \<and> py_int w a = Inr st \<longrightarrow>
      map_sum id fst (push_payload w req) = Inr st)"
proof -
  let ?p = "checker_for w tbl n (type m) m"
  have active: "type m \<noteq> ''push'' \<Longrightarrow> status (fst (check w tbl n m)) \<in> {0, 1}"
    using active_probe_binary[of "type m" w tbl n m]
    by (cases "fst ?p") (auto simp: check_eq)
  have push: "type m = ''push'' \<Longrightarrow>
      status (fst (check w tbl n m)) = 0 \<or>
      (\<exists>hb. get_last_heartbeat tbl (monitor_id m) = Some hb \<and>
            status (fst (check w tbl n m)) = hb_status hb)"
    using checker_for_cases[of "type m" w tbl n m] check_push_status[of w tbl n m]
    by (cases "fst ?p") (auto simp: check_eq)
  have stored: "\<forall>hb \<in> set tbl. hb_status hb \<in> {0, 1} \<Longrightarrow> status (fst (check w tbl n m)) \<in> {0, 1}"
  proof (cases "type m = ''push''")
    case True
    assume "\<forall>hb \<in> set tbl. hb_status hb \<in> {0, 1}"
    with push[OF True] show ?thesis using get_last_heartbeat_mem[of tbl "monitor_id m"] by auto
  next
    case False
    then show ?thesis using active by simp
  qed
  have endpoint: "\<forall>pm st msg.
      push_target s token = Some pm \<and> push_payload w req = Inr (st, msg) \<longrightarrow>
      heartbeats (snd (api_push_heartbeat w token req created_at s)) =
        heartbeats s @
          [\<lparr>hb_monitor_id = monitor_id pm, hb_status = st, hb_message = msg,
            hb_created_at = created_at\<rparr>]"
    by (simp add: api_push_heartbeat_def add_heartbeat_def add_log_def)
  have body: "\<forall>j st. req_method req = ''POST'' \<and> req_json req = Some j \<and> json_status j = Some st \<longrightarrow>
      map_sum id fst (push_payload w req) = Inr st"
    by (simp add: push_payload_def)
  have query: "\<forall>a st. (req_method req \<noteq> ''POST'' \<or> req_json req = None) \<and> arg_status req = Some a \<and>
            a \<noteq> [] \<and> py_int w a = Inr st \<longrightarrow>
      map_sum id fst (push_payload w req) = Inr st"
    by (auto simp: push_payload_def)
  from active push stored endpoint body query show ?thesis by blast
qed

text \<open>
  A keyword check that fails and a heartbeat with status 1: both results are 0 or 1, and
  the push result is the stored status.
\<close>

theorem check_status_values_witness:
  "status (fst (check ok_world [] 0 (keyword_monitor ''error''\<lparr>type := ''keyword''\<rparr>))) \<in> {0, 1} \<and>
   status (fst (check ok_world [example_beat 1] 0 (push_monitor\<lparr>type := ''push''\<rparr>))) \<in> {0, 1} \<and>
   (status (fst (check ok_world [example_beat 1] 0 (push_monitor\<lparr>type := ''push''\<rparr>))) = 0 \<or>
    status (fst (check ok_world [example_beat 1] 0 (push_monitor\<lparr>type := ''push''\<rparr>))) =
      hb_status (example_beat 1)) \<and>
   heartbeats (snd (api_push_heartbeat ok_world ''1'' push_status_2 ''2026-01-01 00:00:00''
                      push_state)) =
     [\<lparr>hb_monitor_id = 1, hb_status = 2, hb_message = ''OK'',
       hb_created_at = ''2026-01-01 00:00:00''\<rparr>]"
proof -
  have t: "push_target push_state ''1'' = Some push_monitor"
    by (simp add: push_target_def push_state_def push_monitor_def example_defs types_of_def str_defs)
  have y: "push_payload ok_world push_status_2 = Inr (2, ''OK'')"
    by (simp add: push_payload_def push_status_2_def)
  have d: "heartbeats (snd (api_push_heartbeat ok_world ''1'' push_status_2 ''2026-01-01 00:00:00''
                      push_state)) =
     [\<lparr>hb_monitor_id = 1, hb_status = 2, hb_message = ''OK'',
       hb_created_at = ''2026-01-01 00:00:00''\<rparr>]"
    using check_status_values[of example_monitor ok_world "[]" 0 push_state "''1''" push_status_2
        "''2026-01-01 00:00:00''"] t y
    by (simp add: push_state_def push_monitor_def example_defs)
  have a: "status (fst (check ok_world [] 0 (keyword_monitor ''error''\<lparr>type := ''keyword''\<rparr>))) \<in> {0, 1}"
    using check_status_values[of "keyword_monitor ''error''\<lparr>type := ''keyword''\<rparr>" ok_world "[]" 0]
    by simp
  have "\<forall>hb \<in> set [example_beat 1]. hb_status hb \<in> {0, 1}"
    by (simp add: example_beat_def)
  then have b: "status (fst (check ok_world [example_beat 1] 0 (push_monitor\<lparr>type := ''push''\<rparr>))) \<in> {0, 1}"
    using check_status_values[of "push_monitor\<lparr>type := ''push''\<rparr>" ok_world "[example_beat 1]" 0]
    by blast
  have g: "get_last_heartbeat [example_beat 1] (monitor_id push_monitor) = Some (example_beat 1)"
    by (simp add: get_last_heartbeat_def push_monitor_def example_monitor_def example_beat_def)
  have c: "status (fst (check ok_world [example_beat 1] 0 (push_monitor\<lparr>type := ''push''\<rparr>))) = 0 \<or>
    status (fst (check ok_world [example_beat 1] 0 (push_monitor\<lparr>type := ''push''\<rparr>))) =
      hb_status (example_beat 1)"
    using check_status_values[of "push_monitor\<lparr>type := ''push''\<rparr>" ok_world "[example_beat 1]" 0]
    by (auto simp: g)
  from a b c d show ?thesis by (intro conjI)
qed

text \<open>
  C7, as the claim states it, fails for a monitor with an empty keyword: the HTTP probe
  succeeds and no second request is made; the result is the HTTP probe's.
\<close>

theorem keyword_empty_no_second_fetch:
  "fst (check_http ok_world 0 (keyword_monitor [])) =
     Inr \<lparr>status = 1, response_time = 120, status_code = 200, message = ''OK''\<rparr> \<and>
   check_keyword ok_world 0 (keyword_monitor []) = check_http ok_world 0 (keyword_monitor []) \<and>
   snd (check_keyword ok_world 0 (keyword_monitor [])) =
     [Requests_get ''https://example.com'' (Some [(''User-Agent'', ''SiteMonitor/1.0'')]) 30]"
  by (simp add: check_keyword_def probe_defs example_defs keyword_monitor_def)

text \<open>
  C7, amended. The keyword check runs the HTTP probe first; when that raises, so does the
  check. Otherwise a second request, a plain GET of the target, is made if and only if
  the HTTP probe returned status 1 and the configured keyword is not empty. When the
  second request is answered, the keyword is searched in the body as a contiguous
  substring (\<open>sublist\<close>): found, the message becomes "contains keyword"; not found, the
  status becomes 0 and the message "keyword not found". When the second request raises,
  or is not made, the result of the HTTP probe is returned unchanged.
\<close>

theorem check_keyword_second_fetch:
  "(\<forall>e cs. check_http w n m = (Inl e, cs) \<longrightarrow> check_keyword w n m = (Inl e, cs)) \<and>
   (\<forall>r1 cs. check_http w n m = (Inr r1, cs) \<longrightarrow>
      (status r1 = 1 \<and> keyword m \<noteq> [] \<longrightarrow>
         snd (check_keyword w n m) = cs @ [Requests_get (target m) None (timeout m)] \<and>
         (\<forall>code text.
            requests w (n + length cs) (Requests_get (target m) None (timeout m)) = Inr (code, text) \<longrightarrow>
            fst (check_keyword w n m) =
              Inr (if sublist (keyword m) text
                   then r1\<lparr>message := msg_keyword_found @ keyword m\<rparr>
                   else r1\<lparr>status := 0, message := msg_keyword_not_found @ keyword m\<rparr>)) \<and>
         (\<forall>e. requests w (n + length cs) (Requests_get (target m) None (timeout m)) = Inl e \<longrightarrow>
            fst (check_keyword w n m) = Inr r1)) \<and>
      (status r1 \<noteq> 1 \<or> keyword m = [] \<longrightarrow> check_keyword w n m = (Inr r1, cs)))"
  by (auto simp: check_keyword_def Let_def split: sum.splits prod.splits)

lemma keyword_http:
  "check_http ok_world 0 (keyword_monitor kw) =
     (Inr \<lparr>status = 1, response_time = 120, status_code = 200, message = ''OK''\<rparr>,
      [Requests_get ''https://example.com'' (Some [(''User-Agent'', ''SiteMonitor/1.0'')]) 30])"
  "check_http second_fetch_fails_world 0 (keyword_monitor kw) =
     (Inr \<lparr>status = 1, response_time = 120, status_code = 200, message = ''OK''\<rparr>,
      [Requests_get ''https://example.com'' (Some [(''User-Agent'', ''SiteMonitor/1.0'')]) 30])"
  "check_http error_world 0 (keyword_monitor kw) =
     (Inr \<lparr>status = 0, response_time = 120, status_code = 500,
           message = msg_status_code @ ''500''\<rparr>,
      [Requests_get ''https://example.com'' (Some [(''User-Agent'', ''SiteMonitor/1.0'')]) 30])"
  "check_http ok_world 0 (keyword_monitor kw\<lparr>headers := Headers_other ''list''\<rparr>) =
     (Inl (Other_Exception
            (CHR 0x27 # ''list'' @ CHR 0x27 # '' object has no attribute '' @
             CHR 0x27 # ''setdefault'' @ [CHR 0x27])), [])"
  by (simp_all add: probe_defs example_defs keyword_monitor_def str_defs)

lemma keyword_fields:
  "keyword (keyword_monitor kw) = kw"
  "target (keyword_monitor kw) = ''https://example.com''"
  "timeout (keyword_monitor kw) = 30"
  by (simp_all add: keyword_monitor_def example_monitor_def)

lemma keyword_second_fetch:
  "requests ok_world j call = Inr (200, ''all ok'')"
  "requests second_fetch_fails_world (Suc 0) call = Inl (Requests_Timeout ''timed out'')"
  by (simp_all add: example_defs)

lemma keyword_in_body: "sublist ''ok'' ''all ok''" "\<not> sublist ''error'' ''all ok''"
  by (simp_all add: sublist_code)

text \<open>
  The keyword \<open>error\<close> is not in the body \<open>all ok\<close>, the keyword \<open>ok\<close> is; a second request
  that times out leaves the result of the HTTP probe, status 1; an HTTP probe that
  fails, or an empty keyword, makes no second request; and headers that are a JSON list
  make the HTTP probe, and so the keyword check, raise.
\<close>

theorem check_keyword_second_fetch_witness:
  "check_keyword ok_world 0 (keyword_monitor ''error'') =
     (Inr \<lparr>status = 0, response_time = 120, status_code = 200,
           message = msg_keyword_not_found @ ''error''\<rparr>,
      [Requests_get ''https://example.com'' (Some [(''User-Agent'', ''SiteMonitor/1.0'')]) 30,
       Requests_get ''https://example.com'' None 30]) \<and>
   check_keyword ok_world 0 (keyword_monitor ''ok'') =
     (Inr \<lparr>status = 1, response_time = 120, status_code = 200,
           message = msg_keyword_found @ ''ok''\<rparr>,
      [Requests_get ''https://example.com'' (Some [(''User-Agent'', ''SiteMonitor/1.0'')]) 30,
       Requests_get ''https://example.com'' None 30]) \<and>
   check_keyword second_fetch_fails_world 0 (keyword_monitor ''ok'') =
     (Inr \<lparr>status = 1, response_time = 120, status_code = 200, message = ''OK''\<rparr>,
      [Requests_get ''https://example.com'' (Some [(''User-Agent'', ''SiteMonitor/1.0'')]) 30,
       Requests_get ''https://example.com'' None 30]) \<and>
   check_keyword error_world 0 (keyword_monitor ''ok'') =
     (Inr \<lparr>status = 0, response_time = 120, status_code = 500,
           message = msg_status_code @ ''500''\<rparr>,
      [Requests_get ''https://example.com'' (Some [(''User-Agent'', ''SiteMonitor/1.0'')]) 30]) \<and>
   check_keyword ok_world 0 (keyword_monitor []) =
     (Inr \<lparr>status = 1, response_time = 120, status_code = 200, message = ''OK''\<rparr>,
      [Requests_get ''https://example.com'' (Some [(''User-Agent'', ''SiteMonitor/1.0'')]) 30]) \<and>
   check_keyword ok_world 0 (keyword_monitor ''ok''\<lparr>headers := Headers_other ''list''\<rparr>) =
     (Inl (Other_Exception
            (CHR 0x27 # ''list'' @ CHR 0x27 # '' object has no attribute '' @
             CHR 0x27 # ''setdefault'' @ [CHR 0x27])), [])"
proof -
  have a: "check_keyword ok_world 0 (keyword_monitor ''error'') =
     (Inr \<lparr>status = 0, response_time = 120, status_code = 200,
           message = msg_keyword_not_found @ ''error''\<rparr>,
      [Requests_get ''https://example.com'' (Some [(''User-Agent'', ''SiteMonitor/1.0'')]) 30,
       Requests_get ''https://example.com'' None 30])"
    using check_keyword_second_fetch[of ok_world 0 "keyword_monitor ''error''"]
      keyword_http(1)[of "''error''"]
    by (simp add: prod_eq_iff keyword_fields keyword_second_fetch keyword_in_body)
  have b: "check_keyword ok_world 0 (keyword_monitor ''ok'') =
     (Inr \<lparr>status = 1, response_time = 120, status_code = 200,
           message = msg_keyword_found @ ''ok''\<rparr>,
      [Requests_get ''https://example.com'' (Some [(''User-Agent'', ''SiteMonitor/1.0'')]) 30,
       Requests_get ''https://example.com'' None 30])"
    using check_keyword_second_fetch[of ok_world 0 "keyword_monitor ''ok''"]
      keyword_http(1)[of "''ok''"]
    by (simp add: prod_eq_iff keyword_fields keyword_second_fetch keyword_in_body)
  have c: "check_keyword second_fetch_fails_world 0 (keyword_monitor ''ok'') =
     (Inr \<lparr>status = 1, response_time = 120, status_code = 200, message = ''OK''\<rparr>,
      [Requests_get ''https://example.com'' (Some [(''User-Agent'', ''SiteMonitor/1.0'')]) 30,
       Requests_get ''https://example.com'' None 30])"
    using check_keyword_second_fetch[of second_fetch_fails_world 0 "keyword_monitor ''ok''"]
      keyword_http(2)[of "''ok''"]
    by (simp add: prod_eq_iff keyword_fields keyword_second_fetch)
  have d: "check_keyword error_world 0 (keyword_monitor ''ok'') =
     (Inr \<lparr>status = 0, response_time = 120, status_code = 500,
           message = msg_status_code @ ''500''\<rparr>,
      [Requests_get ''https://example.com'' (Some [(''User-Agent'', ''SiteMonitor/1.0'')]) 30])"
    using check_keyword_second_fetch[of error_world 0 "keyword_monitor ''ok''"]
      keyword_http(3)[of "''ok''"]
    by simp
  have e: "check_keyword ok_world 0 (keyword_monitor []) =
     (Inr \<lparr>status = 1, response_time = 120, status_code = 200, message = ''OK''\<rparr>,
      [Requests_get ''https://example.com'' (Some [(''User-Agent'', ''SiteMonitor/1.0'')]) 30])"
    using check_keyword_second_fetch[of ok_world 0 "keyword_monitor []"] keyword_http(1)[of "[]"]
    by (simp add: keyword_fields)
  have f: "check_keyword ok_world 0 (keyword_monitor ''ok''\<lparr>headers := Headers_other ''list''\<rparr>) =
     (Inl (Other_Exception
            (CHR 0x27 # ''list'' @ CHR 0x27 # '' object has no attribute '' @
             CHR 0x27 # ''setdefault'' @ [CHR 0x27])), [])"
    using check_keyword_second_fetch[of ok_world 0
        "keyword_monitor ''ok''\<lparr>headers := Headers_other ''list''\<rparr>"]
      keyword_http(4)[of "''ok''"]
    by simp
  from a b c d e f show ?thesis by (intro conjI)
qed

lemma check_http_ignores_type: "check_http w n (m\<lparr>type := t\<rparr>) = check_http w n m"
  by (simp add: check_http_def http_call_def Let_def split: sum.split pyexn.split prod.split)

text \<open>
  C10. For a type that is none of the ten keys of the dispatch table, the dispatcher
  selects the HTTP probe, and \<open>check\<close> returns what it returns for the type \<open>http\<close>: the
  monitor is not rejected and no error result is made up for the unknown type.
\<close>

theorem check_unknown_type_falls_back:
  assumes "type m \<notin> {''http'', ''https'', ''keyword'', ''port'', ''tcp'', ''ping'', ''ssl'',
                       ''push'', ''mysql'', ''redis''}"
  shows "checker_for w tbl n (type m) = check_http w n \<and>
         check w tbl n m = check w tbl n (m\<lparr>type := ''http''\<rparr>)"
  using assms by (simp add: check_def checker_for_def checkers_def check_http_ignores_type)

theorem check_unknown_type_falls_back_witness:
  "type (example_monitor\<lparr>type := ''dns''\<rparr>) \<notin>
     {''http'', ''https'', ''keyword'', ''port'', ''tcp'', ''ping'', ''ssl'', ''push'', ''mysql'', ''redis''} \<and>
   check ok_world [] 0 (example_monitor\<lparr>type := ''dns''\<rparr>) =
     check ok_world [] 0 (example_monitor\<lparr>type := ''http''\<rparr>) \<and>
   fst (check ok_world [] 0 (example_monitor\<lparr>type := ''dns''\<rparr>)) =
     \<lparr>status = 1, response_time = 120, status_code = 200, message = ''OK''\<rparr>"
proof -
  have h: "type (example_monitor\<lparr>type := ''dns''\<rparr>) \<notin>
     {''http'', ''https'', ''keyword'', ''port'', ''tcp'', ''ping'', ''ssl'', ''push'', ''mysql'', ''redis''}"
    by simp
  have e: "fst (check ok_world [] 0 (example_monitor\<lparr>type := ''http''\<rparr>)) =
     \<lparr>status = 1, response_time = 120, status_code = 200, message = ''OK''\<rparr>"
    by (simp add: probe_defs example_defs)
  show ?thesis
    using check_unknown_type_falls_back[OF h, of ok_world "[]" 0] h e
    by simp
qed

section \<open>Deletion and manual checks\<close>

lemma find_filter_none: "find (\<lambda>m. f m = i) (filter (\<lambda>m. f m \<noteq> i) ms) = None"
  by (simp add: find_None_iff)

lemma tracked_state_facts:
  "get_monitor tracked_state 1 = Some example_monitor"
  "jobs tracked_state (job_id_of 1) = Some (example_monitor, 60)"
  "tracked tracked_state 1 ''http'' = Some 1"
  "events tracked_state = []"
  "sent tracked_state = []"
  "map log_status (monitor_logs tracked_state) = [1]"
  by (simp_all add: get_monitor_def tracked_state_def schedule_monitor_def job_id_of_def
        probe_defs example_defs app_defs str_defs)

text \<open>
  C8, as the claim states it, fails: deleting a monitor leaves \<open>last_status\<close> as it was.
  The example monitor, scheduled and checked once, is deleted; its stored status is
  still there.
\<close>

theorem delete_keeps_last_status:
  "fst (api_delete_monitor True 1 tracked_state) = Json_success \<and>
   tracked (snd (api_delete_monitor True 1 tracked_state)) 1 ''http'' = Some 1"
  using tracked_state_facts(1,3) by (simp add: api_delete_monitor_def tracked_def add_event_def delete_monitor_def)

text \<open>
  C8, amended. A deletion by an authorised caller of a monitor that exists answers
  success, removes the monitor's job from the scheduler, so that a later tick of that job
  changes nothing and runs no probe, removes the monitor from the store, so that a later
  manual check answers 404 and runs no probe, and records a \<open>delete\<close> event. It makes no
  network call and leaves \<open>last_status\<close> unchanged.
\<close>

theorem api_delete_monitor_effect:
  assumes "get_monitor s i = Some m"
  shows "fst (api_delete_monitor True i s) = Json_success \<and>
         jobs (snd (api_delete_monitor True i s)) (job_id_of i) = None \<and>
         fire_job w (job_id_of i) (snd (api_delete_monitor True i s)) = snd (api_delete_monitor True i s) \<and>
         get_monitor (snd (api_delete_monitor True i s)) i = None \<and>
         api_check_now w i (snd (api_delete_monitor True i s)) = (Json_error 404, snd (api_delete_monitor True i s)) \<and>
         last_status (snd (api_delete_monitor True i s)) = last_status s \<and>
         calls (snd (api_delete_monitor True i s)) = calls s \<and>
         events (snd (api_delete_monitor True i s)) =
           events s @ [\<lparr>ev_monitor_id = None, ev_type = ''delete'', ev_message = msg_deleted @ name m\<rparr>]"
  using assms
  by (simp add: api_delete_monitor_def fire_job_def get_monitor_def delete_monitor_def add_event_def
        api_check_now_def find_filter_none)

theorem api_delete_monitor_effect_witness:
  "get_monitor tracked_state 1 = Some example_monitor \<and>
   jobs tracked_state (job_id_of 1) = Some (example_monitor, 60) \<and>
   jobs (snd (api_delete_monitor True 1 tracked_state)) (job_id_of 1) = None \<and>
   fire_job flip_world (job_id_of 1) (snd (api_delete_monitor True 1 tracked_state)) =
     snd (api_delete_monitor True 1 tracked_state) \<and>
   get_monitor (snd (api_delete_monitor True 1 tracked_state)) 1 = None \<and>
   last_status (snd (api_delete_monitor True 1 tracked_state)) = last_status tracked_state"
  using api_delete_monitor_effect[OF tracked_state_facts(1), of flip_world] tracked_state_facts(1,2)
  by simp










end
